theory Spec2Isabelle
  imports Complex_Main
begin

section \<open>Python values used by the scoring core\<close>

text \<open>
  A Python \<open>str\<close> is a sequence of Unicode code points; it is modelled as the list of
  the code points' numbers. \<open>u\<close> writes the ASCII part of a literal, the accented letters
  of the Portuguese tables are given by number: 224 a-grave, 225 a-acute, 226 a-circumflex,
  227 a-tilde, 231 c-cedilla, 232 e-grave, 233 e-acute, 234 e-circumflex, 237 i-acute,
  239 i-diaeresis, 241 n-tilde, 243 o-acute, 244 o-circumflex, 245 o-tilde,
  246 o-diaeresis, 250 u-acute (the source files are in composed form throughout).
\<close>

type_synonym str = "nat list"

definition u :: "string \<Rightarrow> str" where
  "u s = map of_char s"

text \<open>
  The argument \<open>text\<close> is declared \<open>str\<close>, but the callers pass whatever the data frame
  holds: the objects the guards of the source tell apart are listed here.
\<close>

datatype pyobj = PyNone | PyStr str | PyInt int

fun truthy :: "pyobj \<Rightarrow> bool" where
  "truthy PyNone = False"
| "truthy (PyStr s) = (s \<noteq> [])"
| "truthy (PyInt n) = (n \<noteq> 0)"

fun isinstance_str :: "pyobj \<Rightarrow> bool" where
  "isinstance_str (PyStr s) = True"
| "isinstance_str x = False"

text \<open>The string behind an object that passed \<open>isinstance(text, str)\<close>.\<close>

fun the_str :: "pyobj \<Rightarrow> str" where
  "the_str (PyStr s) = s"
| "the_str x = []"

text \<open>
  What the source takes from the Python runtime and the Unicode database, and does not
  define itself: \<open>str.lower\<close>, \<open>unicodedata.normalize('NFKC', _)\<close> and the class of
  alphanumeric code points behind the pattern \<open>\w\<close>. They are parameters of the model,
  so that a theorem about every text holds for the tables of every Python version.
\<close>

record pyrt =
  str_lower :: "str \<Rightarrow> str"
  nfkc :: "str \<Rightarrow> str"
  isalnum :: "nat \<Rightarrow> bool"

text \<open>
  The runtime on text of the blocks Basic Latin and Latin-1 Supplement (code points below
  256), as CPython 3 has it there. \<open>str.lower\<close> moves A-Z and the capital letters
  192-222 (but not the multiplication sign 215) up by 32. NFKC rewrites fourteen code
  points of the range 160-190 and leaves the others; no two neighbours of these blocks
  compose. Alphanumeric are the digits, the letters, and 170, 178, 179, 181, 185, 186,
  188-190. Code points from 256 on pass through unchanged and count as not alphanumeric:
  this table is only ever applied to text below 256.
\<close>

definition lower_cp :: "nat \<Rightarrow> nat" where
  "lower_cp c = (if (65 \<le> c \<and> c \<le> 90) \<or> (192 \<le> c \<and> c \<le> 222 \<and> c \<noteq> 215) then c + 32 else c)"

definition nfkc_cp :: "nat \<Rightarrow> str" where
  "nfkc_cp c =
     (if c = 160 then [32] else if c = 168 then [32, 776] else if c = 170 then [97]
      else if c = 175 then [32, 772] else if c = 178 then [50] else if c = 179 then [51]
      else if c = 180 then [32, 769] else if c = 181 then [956] else if c = 184 then [32, 807]
      else if c = 185 then [49] else if c = 186 then [111] else if c = 188 then [49, 8260, 52]
      else if c = 189 then [49, 8260, 50] else if c = 190 then [51, 8260, 52] else [c])"

definition isalnum_cp :: "nat \<Rightarrow> bool" where
  "isalnum_cp c =
     ((48 \<le> c \<and> c \<le> 57) \<or> (65 \<le> c \<and> c \<le> 90) \<or> (97 \<le> c \<and> c \<le> 122)
      \<or> c = 170 \<or> c = 178 \<or> c = 179 \<or> c = 181 \<or> c = 185 \<or> c = 186
      \<or> (188 \<le> c \<and> c \<le> 190)
      \<or> (192 \<le> c \<and> c \<le> 255 \<and> c \<noteq> 215 \<and> c \<noteq> 247))"

definition latin1 :: pyrt where
  "latin1 = \<lparr>str_lower = map lower_cp, nfkc = (\<lambda>s. concat (map nfkc_cp s)),
             isalnum = isalnum_cp\<rparr>"

text \<open>\<open>kw in text\<close> on strings: \<open>kw\<close> occurs in \<open>text\<close> as a contiguous run.\<close>

fun startswith :: "str \<Rightarrow> str \<Rightarrow> bool" where
  "startswith [] text = True"
| "startswith (k # ks) [] = False"
| "startswith (k # ks) (c # cs) = (k = c \<and> startswith ks cs)"

fun contains :: "str \<Rightarrow> str \<Rightarrow> bool" where
  "contains kw [] = (kw = [])"
| "contains kw (c # cs) = (startswith kw (c # cs) \<or> contains kw cs)"

text \<open>\<open>sum(1 for signal in signals if signal in text)\<close>\<close>

definition count_signals :: "str list \<Rightarrow> str \<Rightarrow> int" where
  "count_signals signals text = int (length (filter (\<lambda>signal. contains signal text) signals))"

text \<open>
  \<open>round(x, 2)\<close>: to the nearest multiple of 1/100, a tie going to the even neighbour.
  Scores are exact rationals here; the factors 1.5, 1.2, 1.3 and 1.1 are taken at their
  decimal value.
\<close>

definition round2 :: "rat \<Rightarrow> rat" where
  "round2 x =
     (let y = x * 100; f = \<lfloor>y\<rfloor>; d = y - of_int f
      in (if d < 1 / 2 then of_int f
          else if 1 / 2 < d then of_int (f + 1)
          else if even f then of_int f else of_int (f + 1)) / 100)"

section \<open>Churn detection (src/analysis/churn_detector.py)\<close>

definition CHURN_SIGNALS_alta :: "str list" where
  "CHURN_SIGNALS_alta =
    [u ''nunca mais'',
     u ''n'' @ [227] @ u ''o compro'',
     u ''n'' @ [227] @ u ''o volto'',
     u ''p'' @ [233] @ u ''ssimo'',
     u ''golpe'',
     u ''fraude'',
     u ''processarei'',
     u ''procon'',
     u ''juizado'',
     u ''reclame aqui'',
     u ''cancelei'',
     u ''devolvi'',
     u ''n'' @ [227] @ u ''o recomendo'',
     u ''horr'' @ [237] @ u ''vel'',
     u ''lixo'',
     u ''pior compra'',
     u ''arrependimento total'',
     u ''dinheiro jogado fora'']"

definition CHURN_SIGNALS_media :: "str list" where
  "CHURN_SIGNALS_media =
    [u ''decepcionado'',
     u ''decep'' @ [231, 227] @ u ''o'',
     u ''arrependido'',
     u ''arrependimento'',
     u ''n'' @ [227] @ u ''o vale'',
     u ''n'' @ [227] @ u ''o recomendo'',
     u ''insatisfeito'',
     u ''frustrado'',
     u ''esperava mais'',
     u ''propaganda enganosa'',
     u ''mentira'',
     u ''engana'' @ [231, 227] @ u ''o'',
     u ''n'' @ [227] @ u ''o presta'',
     u ''muito ruim'',
     u ''mal feito'']"

definition CHURN_SIGNALS_baixa :: "str list" where
  "CHURN_SIGNALS_baixa =
    [u ''poderia ser melhor'',
     u ''esperava mais'',
     u ''deixou a desejar'',
     u ''n'' @ [227] @ u ''o '' @ [233] @ u '' o que parece'',
     u ''n'' @ [227] @ u ''o gostei'',
     u ''n'' @ [227] @ u ''o atendeu'',
     u ''demora'',
     u ''demorado'',
     u ''atraso'',
     u ''atrasado'']"

definition PROBLEM_ASPECTS :: "(str \<times> str list) list" where
  "PROBLEM_ASPECTS =
     [(u ''qualidade'',
       [u ''quebrou'',
        u ''defeito'',
        u ''quebrado'',
        u ''estragou'',
        u ''n'' @ [227] @ u ''o funciona'',
        u ''parou de funcionar'',
        u ''ruim'',
        u ''fraco'',
        u ''fr'' @ [225] @ u ''gil'',
        u ''mal feito'']),
      (u ''entrega'',
       [u ''n'' @ [227] @ u ''o chegou'',
        u ''n'' @ [227] @ u ''o recebi'',
        u ''atraso'',
        u ''demora'',
        u ''perdido'',
        u ''extraviado'',
        u ''atrasado'',
        u ''prazo'',
        u ''n'' @ [227] @ u ''o entregaram'']),
      (u ''atendimento'',
       [u ''n'' @ [227] @ u ''o respondem'',
        u ''mal atendido'',
        u ''grosseiro'',
        u ''n'' @ [227] @ u ''o resolve'',
        u ''n'' @ [227] @ u ''o ajuda'',
        u ''ignoram'',
        u ''n'' @ [227] @ u ''o atende'',
        u ''p'' @ [233] @ u ''ssimo atendimento'']),
      (u ''preco'',
       [u ''caro demais'',
        u ''muito caro'',
        u ''n'' @ [227] @ u ''o vale o pre'' @ [231] @ u ''o'',
        u ''superfaturado'',
        u ''abuso'',
        u ''pre'' @ [231] @ u ''o abusivo'',
        u ''cobrou a mais''])]"

record churn_signals =
  alta_gravidade :: int
  media_gravidade :: int
  baixa_gravidade :: int

record churn_result =
  churn_score :: rat
  risk_level :: str
  problem_aspects :: "str list"
  main_reasons :: "str list"
  signals_detected :: churn_signals
  is_critical :: bool

definition no_risk_result :: churn_result where
  "no_risk_result =
     \<lparr>churn_score = 0, risk_level = u ''sem_risco'', problem_aspects = [],
      main_reasons = [],
      signals_detected = \<lparr>alta_gravidade = 0, media_gravidade = 0, baixa_gravidade = 0\<rparr>,
      is_critical = False\<rparr>"

definition classify_risk :: "rat \<Rightarrow> int \<Rightarrow> str \<Rightarrow> str" where
  "classify_risk score rating sentiment =
     (if sentiment = u ''positivo'' \<and> rating \<ge> 4 then u ''sem_risco''
      else if score \<ge> 40 \<or> (rating \<le> 2 \<and> score \<ge> 20) then u ''alto_risco''
      else if score \<ge> 20 \<or> (rating = 3 \<and> score \<ge> 10) then u ''medio_risco''
      else if score > 0 \<or> rating \<le> 3 then u ''baixo_risco''
      else u ''sem_risco'')"

definition detect_problem_aspects :: "str \<Rightarrow> str list" where
  "detect_problem_aspects text =
     map fst (filter (\<lambda>(aspect, keywords). list_ex (\<lambda>keyword. contains keyword text) keywords)
                PROBLEM_ASPECTS)"

text \<open>
  One of the three loops of \<open>_extract_main_reasons\<close>: every signal found in the text is
  appended to \<open>reasons\<close>, and the loop is left (\<open>break\<close>) once there are three.
\<close>

fun collect_reasons :: "str list \<Rightarrow> str \<Rightarrow> str list \<Rightarrow> str list" where
  "collect_reasons [] text reasons = reasons"
| "collect_reasons (signal # signals) text reasons =
     (if contains signal text
      then (let reasons' = reasons @ [signal]
            in if length reasons' \<ge> 3 then reasons' else collect_reasons signals text reasons')
      else collect_reasons signals text reasons)"

definition extract_main_reasons :: "str \<Rightarrow> int \<Rightarrow> int \<Rightarrow> int \<Rightarrow> str list" where
  "extract_main_reasons text alta media baixa =
     (let reasons = [];
          reasons = (if alta > 0 then collect_reasons CHURN_SIGNALS_alta text reasons
                     else reasons);
          reasons = (if length reasons < 3 \<and> media > 0
                     then collect_reasons CHURN_SIGNALS_media text reasons else reasons);
          reasons = (if length reasons < 3 \<and> baixa > 0
                     then collect_reasons CHURN_SIGNALS_baixa text reasons else reasons)
      in take 3 reasons)"

definition detect_churn_risk :: "pyrt \<Rightarrow> pyobj \<Rightarrow> int \<Rightarrow> str \<Rightarrow> churn_result" where
  "detect_churn_risk rt text_obj rating sentiment =
     (if \<not> truthy text_obj \<or> \<not> isinstance_str text_obj then no_risk_result
      else
        let text_lower = str_lower rt (the_str text_obj);
            alta_count = count_signals CHURN_SIGNALS_alta text_lower;
            media_count = count_signals CHURN_SIGNALS_media text_lower;
            baixa_count = count_signals CHURN_SIGNALS_baixa text_lower;
            score = of_int (min (alta_count * 30 + media_count * 15 + baixa_count * 5) 100);
            score = (if rating \<le> 2 then score * (3 / 2)
                     else if rating = 3 then score * (6 / 5)
                     else score);
            score = min score 100;
            aspects = detect_problem_aspects text_lower;
            level = classify_risk score rating sentiment;
            reasons = extract_main_reasons text_lower alta_count media_count baixa_count
        in \<lparr>churn_score = round2 score,
            risk_level = level,
            problem_aspects = aspects,
            main_reasons = reasons,
            signals_detected = \<lparr>alta_gravidade = alta_count, media_gravidade = media_count,
                                baixa_gravidade = baixa_count\<rparr>,
            is_critical = (level = u ''alto_risco'')\<rparr>)"

section \<open>Opportunity detection (src/analysis/opportunity_finder.py)\<close>

definition UPSELL_SIGNALS :: "str list" where
  "UPSELL_SIGNALS =
    [u ''vou comprar'',
     u ''comprarei'',
     u ''quero comprar'',
     u ''vou pegar'',
     u ''vers'' @ [227] @ u ''o maior'',
     u ''modelo maior'',
     u ''pr'' @ [243] @ u ''xima compra'',
     u ''quero outro'',
     u ''precisando de outro'',
     u ''comprar mais'',
     u ''j'' @ [225] @ u '' estou de olho'',
     u ''pr'' @ [243] @ u ''ximo ser'' @ [225],
     u ''vou trocar por'']"

definition CROSS_SELL_SIGNALS :: "str list" where
  "CROSS_SELL_SIGNALS =
    [u ''combina com'',
     u ''agora preciso'',
     u ''falta s'' @ [243],
     u ''vou comprar tamb'' @ [233] @ u ''m'',
     u ''agora falta'',
     u ''pr'' @ [243] @ u ''ximo passo'',
     u ''agora quero'',
     u ''complementa'',
     u ''junto com'',
     u ''para acompanhar'',
     u ''pensando em pegar'']"

definition LOYALTY_SIGNALS :: "str list" where
  "LOYALTY_SIGNALS =
    [u ''sempre compro'',
     u ''cliente fiel'',
     u ''toda vez'',
     u ''compro sempre'',
     u ''j'' @ [225] @ u '' '' @ [233] @ u '' a segunda'',
     u ''j'' @ [225] @ u '' '' @ [233] @ u '' o terceiro'',
     u ''compro todo m'' @ [234] @ u ''s'',
     u ''cliente h'' @ [225] @ u '' anos'',
     u ''confio'',
     u ''s'' @ [243] @ u '' compro aqui'',
     u ''minha marca favorita'',
     u ''n'' @ [227] @ u ''o troco'',
     [250] @ u ''nica loja'',
     u ''s'' @ [243] @ u '' compro dessa marca'']"

definition BRAND_ADVOCATE_SIGNALS :: "str list" where
  "BRAND_ADVOCATE_SIGNALS =
    [u ''indiquei'',
     u ''recomendo'',
     u ''recomendei'',
     u ''toda fam'' @ [237] @ u ''lia'',
     u ''todos da fam'' @ [237] @ u ''lia'',
     u ''todo mundo'',
     u ''j'' @ [225] @ u '' indiquei'',
     u ''super recomendo'',
     u ''recomendo muito'',
     u ''indico'',
     u ''todo mundo deveria'',
     u ''todos deveriam'',
     u ''melhor que existe'',
     u ''n'' @ [227] @ u ''o existe melhor'',
     u ''compartilhei'',
     u ''mostrei para'',
     u ''convenci'']"

definition EXCEPTIONAL_SATISFACTION :: "str list" where
  "EXCEPTIONAL_SATISFACTION =
    [u ''superou'',
     u ''excedeu'',
     u ''al'' @ [233] @ u ''m das expectativas'',
     u ''melhor que esperado'',
     u ''surpreendeu'',
     u ''impressionado'',
     u ''incr'' @ [237] @ u ''vel'',
     u ''perfeito'',
     u ''impec'' @ [225] @ u ''vel'',
     u ''maravilhoso'',
     u ''sensacional'',
     u ''fant'' @ [225] @ u ''stico'',
     u ''excepcional'']"

record opportunity_signals =
  upsell :: int
  cross_sell :: int
  loyalty :: int
  brand_advocate :: int
  exceptional_satisfaction :: int

text \<open>
  The key \<open>signals_detected\<close> of the returned dictionary is the field \<open>opp_signals_detected\<close>
  here, the churn record having a field of that name already.
\<close>

record opportunity_result =
  opportunity_score :: rat
  opportunity_level :: str
  opportunity_types :: "str list"
  customer_profile :: str
  opp_signals_detected :: opportunity_signals
  is_high_value :: bool

definition no_opportunity_result :: opportunity_result where
  "no_opportunity_result =
     \<lparr>opportunity_score = 0, opportunity_level = u ''sem_oportunidade'',
      opportunity_types = [], customer_profile = u ''cliente_comum'',
      opp_signals_detected = \<lparr>upsell = 0, cross_sell = 0, loyalty = 0, brand_advocate = 0,
                                exceptional_satisfaction = 0\<rparr>,
      is_high_value = False\<rparr>"

definition classify_opportunity :: "rat \<Rightarrow> int \<Rightarrow> str \<Rightarrow> str" where
  "classify_opportunity score rating sentiment =
     (if sentiment = u ''negativo'' \<or> rating < 4 then u ''sem_oportunidade''
      else if score \<ge> 50 \<or> (rating = 5 \<and> score \<ge> 30) then u ''alta_oportunidade''
      else if score \<ge> 25 \<or> (rating = 5 \<and> score \<ge> 15) then u ''media_oportunidade''
      else if score > 0 then u ''baixa_oportunidade''
      else u ''sem_oportunidade'')"

definition identify_opportunity_types :: "int \<Rightarrow> int \<Rightarrow> int \<Rightarrow> int \<Rightarrow> int \<Rightarrow> str list" where
  "identify_opportunity_types n_upsell n_cross_sell n_loyalty n_advocate n_exceptional =
     (let types = [];
          types = (if n_upsell > 0 then types @ [u ''upsell''] else types);
          types = (if n_cross_sell > 0 then types @ [u ''cross_sell''] else types);
          types = (if n_loyalty > 0 then types @ [u ''fidelidade''] else types);
          types = (if n_advocate > 0 then types @ [u ''advogado_marca''] else types);
          types = (if n_exceptional > 0 then types @ [u ''satisfacao_excepcional''] else types)
      in types)"

definition profile_customer :: "int \<Rightarrow> int \<Rightarrow> int \<Rightarrow> str" where
  "profile_customer n_loyalty n_advocate n_exceptional =
     (let total_signals = n_loyalty + n_advocate + n_exceptional
      in if n_advocate \<ge> 2 \<or> (n_advocate \<ge> 1 \<and> n_loyalty \<ge> 1) then u ''advogado_marca''
         else if n_loyalty \<ge> 2 \<or> (n_loyalty \<ge> 1 \<and> n_exceptional \<ge> 1) then u ''cliente_fiel''
         else if n_exceptional \<ge> 2 then u ''altamente_satisfeito''
         else if total_signals > 0 then u ''cliente_satisfeito''
         else u ''cliente_comum'')"

definition find_opportunities :: "pyrt \<Rightarrow> pyobj \<Rightarrow> int \<Rightarrow> str \<Rightarrow> opportunity_result" where
  "find_opportunities rt text_obj rating sentiment =
     (if \<not> truthy text_obj \<or> \<not> isinstance_str text_obj then no_opportunity_result
      else
        let text_lower = str_lower rt (the_str text_obj);
            upsell_count = count_signals UPSELL_SIGNALS text_lower;
            cross_sell_count = count_signals CROSS_SELL_SIGNALS text_lower;
            loyalty_count = count_signals LOYALTY_SIGNALS text_lower;
            advocate_count = count_signals BRAND_ADVOCATE_SIGNALS text_lower;
            exceptional_count = count_signals EXCEPTIONAL_SATISFACTION text_lower;
            score = of_int (upsell_count * 20 + cross_sell_count * 15 + loyalty_count * 25
                            + advocate_count * 30 + exceptional_count * 10);
            score = (if rating = 5 then score * (13 / 10)
                     else if rating = 4 then score * (11 / 10)
                     else score);
            score = min score 100;
            level = classify_opportunity score rating sentiment;
            types = identify_opportunity_types upsell_count cross_sell_count loyalty_count
                      advocate_count exceptional_count;
            profile = profile_customer loyalty_count advocate_count exceptional_count
        in \<lparr>opportunity_score = round2 score,
            opportunity_level = level,
            opportunity_types = types,
            customer_profile = profile,
            opp_signals_detected =
              \<lparr>upsell = upsell_count, cross_sell = cross_sell_count, loyalty = loyalty_count,
               brand_advocate = advocate_count, exceptional_satisfaction = exceptional_count\<rparr>,
            is_high_value = (level = u ''alta_oportunidade'')\<rparr>)"

section \<open>Category extraction (src/preprocessing/category_extractor.py)\<close>

text \<open>
  The dictionary \<open>CATEGORY_KEYWORDS\<close> in the order it is written, which is the order a
  Python dictionary is iterated in.
\<close>

definition CATEGORY_KEYWORDS :: "(str \<times> str list) list" where
  "CATEGORY_KEYWORDS =
     [(u ''Smartphones'',
       [u ''celular'',
        u ''smartphone'',
        u ''iphone'',
        u ''samsung'',
        u ''motorola'',
        u ''moto g'',
        u ''galaxy'',
        u ''xiaomi'',
        u ''android'',
        u ''ios'',
        u ''fone'',
        u ''bateria'',
        u ''camera'',
        u ''aplicativo'',
        u ''tela touch'']),
      (u ''Notebooks e Computadores'',
       [u ''notebook'',
        u ''laptop'',
        u ''computador'',
        u ''pc'',
        u ''desktop'',
        u ''processador'',
        u ''memoria ram'',
        u ''ssd'',
        u ''hd'',
        u ''windows'',
        u ''placa de video'',
        u ''cooler'']),
      (u ''TVs e Monitores'',
       [u ''tv'',
        u ''televisao'',
        u ''monitor'',
        u ''smart tv'',
        u ''led'',
        u ''lcd'',
        u ''4k'',
        u ''hdmi'',
        u ''polegadas'',
        u ''controle remoto'',
        u ''netflix'',
        u ''youtube'',
        u ''tela grande'']),
      (u ''Eletrodom'' @ [233] @ u ''sticos'',
       [u ''geladeira'',
        u ''freezer'',
        u ''microondas'',
        u ''fogao'',
        u ''forno'',
        u ''liquidificador'',
        u ''batedeira'',
        u ''aspirador'',
        u ''lavadora'',
        u ''ferro de passar'',
        u ''ar condicionado'',
        u ''ventilador'',
        u ''aquecedor'']),
      (u ''M'' @ [243] @ u ''veis'',
       [u ''sofa'',
        u ''cama'',
        u ''colchao'',
        u ''mesa'',
        u ''cadeira'',
        u ''estante'',
        u ''guarda-roupa'',
        u ''armario'',
        u ''rack'',
        u ''estofado'',
        u ''madeira'',
        u ''movel'',
        u ''comoda'']),
      (u ''Beleza e Sa'' @ [250] @ u ''de'',
       [u ''shampoo'',
        u ''condicionador'',
        u ''perfume'',
        u ''maquiagem'',
        u ''creme'',
        u ''protetor'',
        u ''cabelo'',
        u ''pele'',
        u ''hidratante'',
        u ''sabonete'',
        u ''esmalte'',
        u ''batom'',
        u ''cosmetico'']),
      (u ''Livros e M'' @ [237] @ u ''dia'',
       [u ''livro'',
        u ''romance'',
        u ''autor'',
        u ''paginas'',
        u ''leitura'',
        u ''historia'',
        u ''capitulo'',
        u ''cd'',
        u ''dvd'',
        u ''filme'',
        u ''blu-ray'']),
      (u ''Esporte e Lazer'',
       [u ''bicicleta'',
        u ''bike'',
        u ''tenis'',
        u ''corrida'',
        u ''academia'',
        u ''peso'',
        u ''exercicio'',
        u ''bola'',
        u ''esporte'',
        u ''treino'']),
      (u ''Moda e Vestu'' @ [225] @ u ''rio'',
       [u ''roupa'',
        u ''camiseta'',
        u ''calca'',
        u ''vestido'',
        u ''sapato'',
        u ''bolsa'',
        u ''tecido'',
        u ''tamanho'',
        u ''cor'',
        u ''estampa'',
        u ''moda'']),
      (u ''Casa e Decora'' @ [231, 227] @ u ''o'',
       [u ''panela'',
        u ''cozinha'',
        u ''decoracao'',
        u ''quadro'',
        u ''vaso'',
        u ''tapete'',
        u ''cortina'',
        u ''almofada'',
        u ''luminaria'']),
      (u ''Inform'' @ [225] @ u ''tica e Acess'' @ [243] @ u ''rios'',
       [u ''mouse'',
        u ''teclado'',
        u ''headset'',
        u ''webcam'',
        u ''impressora'',
        u ''pen drive'',
        u ''cabo usb'',
        u ''adaptador'',
        u ''carregador''])]"

text \<open>
  The loop that fills \<open>scores\<close>: one count per category, in table order; only the
  categories with a positive count are stored.
\<close>

definition keyword_scores :: "str \<Rightarrow> (str \<times> int) list" where
  "keyword_scores text_lower =
     map (\<lambda>(category, keywords). (category, count_signals keywords text_lower))
       CATEGORY_KEYWORDS"

definition positive_scores :: "str \<Rightarrow> (str \<times> int) list" where
  "positive_scores text_lower = filter (\<lambda>(category, score). score > 0) (keyword_scores text_lower)"

text \<open>
  The count of the \<open>j\<close>-th category of the table, for stating which categories tie.
\<close>

definition category_score :: "str \<Rightarrow> nat \<Rightarrow> int" where
  "category_score text_lower j = count_signals (snd (CATEGORY_KEYWORDS ! j)) text_lower"

text \<open>
  \<open>scores.get(k)\<close> and \<open>scores[k]\<close> for a key of the dictionary (the only use the
  source makes of them; the value for an absent key is not used).
\<close>

definition scores_get :: "(str \<times> int) list \<Rightarrow> str \<Rightarrow> int" where
  "scores_get scores k = (case map_of scores k of Some v \<Rightarrow> v | None \<Rightarrow> 0)"

text \<open>
  \<open>max(iterable, key=f)\<close>: the first item is the candidate, and a later item replaces
  it only when its key is strictly greater.
\<close>

fun max_from :: "('a \<Rightarrow> int) \<Rightarrow> 'a \<Rightarrow> 'a list \<Rightarrow> 'a" where
  "max_from f best [] = best"
| "max_from f best (x # xs) = max_from f (if f x > f best then x else best) xs"

definition extract_category :: "pyrt \<Rightarrow> pyobj \<Rightarrow> str \<times> rat" where
  "extract_category rt text_obj =
     (if \<not> truthy text_obj \<or> \<not> isinstance_str text_obj then (u ''Outros'', 0)
      else
        let text_lower = str_lower rt (the_str text_obj);
            scores = positive_scores text_lower
        in (case map fst scores of
              [] \<Rightarrow> (u ''Outros'', 0)
            | k # ks \<Rightarrow>
                let best_category = max_from (scores_get scores) k ks;
                    confidence = min (of_int (scores_get scores best_category) / 3) 1
                in (best_category, confidence)))"

section \<open>Text cleaning (src/preprocessing/text_cleaner.py)\<close>

text \<open>
  The white space of Python 3: the code points for which \<open>str.isspace\<close> holds. The
  patterns \<open>\s\<close> and \<open>\S\<close>, \<open>str.split()\<close> and \<open>str.strip()\<close> all go by it.
\<close>

definition py_isspace :: "nat \<Rightarrow> bool" where
  "py_isspace c =
     ((9 \<le> c \<and> c \<le> 13) \<or> (28 \<le> c \<and> c \<le> 32) \<or> c = 133 \<or> c = 160 \<or> c = 5760
      \<or> (8192 \<le> c \<and> c \<le> 8202) \<or> c = 8232 \<or> c = 8233 \<or> c = 8239 \<or> c = 8287
      \<or> c = 12288)"

text \<open>The run of non-blank characters a string starts with: what a greedy \<open>\S+\<close> takes.\<close>

definition nonspace_run :: "str \<Rightarrow> str" where
  "nonspace_run s = takeWhile (\<lambda>c. \<not> py_isspace c) s"

text \<open>
  \<open>re.sub(pattern, repl, text)\<close>. The pattern is given by its matcher: the length of
  the match that starts at the head of a string, if there is one. The text is scanned
  from the left; a match is replaced and the scan goes on behind it, any other character
  is copied. (No pattern of the source matches the empty string; a match has a first
  character, and \<open>n - 1\<close> more are dropped.)
\<close>

fun re_sub :: "(str \<Rightarrow> nat option) \<Rightarrow> str \<Rightarrow> str \<Rightarrow> str" where
  "re_sub m repl [] = []"
| "re_sub m repl (c # cs) =
     (case m (c # cs) of
        Some n \<Rightarrow> repl @ re_sub m repl (drop (n - 1) cs)
      | None \<Rightarrow> c # re_sub m repl cs)"

text \<open>A literal prefix followed by \<open>\S+\<close>, matched at the head of \<open>s\<close>.\<close>

definition match_after :: "str \<Rightarrow> str \<Rightarrow> nat option" where
  "match_after p s =
     (if startswith p s \<and> nonspace_run (drop (length p) s) \<noteq> []
      then Some (length p + length (nonspace_run (drop (length p) s))) else None)"

text \<open>\<open>https?://\S+|www\.\S+\<close>\<close>

definition url_match :: "str \<Rightarrow> nat option" where
  "url_match s =
     (case match_after (u ''https://'') s of
        Some n \<Rightarrow> Some n
      | None \<Rightarrow>
          (case match_after (u ''http://'') s of
             Some n \<Rightarrow> Some n
           | None \<Rightarrow> match_after (u ''www.'') s))"

text \<open>
  \<open>\S+@\S+\<close>: the first \<open>\S+\<close> takes the whole run of non-blank characters and gives
  characters back until an at sign (64) with a non-blank character behind it follows;
  the second \<open>\S+\<close> takes the rest of the run. So there is a match exactly when the run
  has an at sign that is neither its first nor its last character, and the match is the
  whole run.
\<close>

definition email_match :: "str \<Rightarrow> nat option" where
  "email_match s =
     (let r = nonspace_run s
      in if 64 \<in> set (butlast (tl r)) then Some (length r) else None)"

text \<open>
  The class \<open>[^\w\s!?.,...-]\<close> of \<open>_remove_special_chars\<close>; between the comma and the
  hyphen it lists sixteen accented letters. \<open>\w\<close> is an alphanumeric character or the
  underscore (95).
\<close>

definition kept_chars :: str where
  "kept_chars = u ''!?.,'' @ [225, 224, 226, 227, 233, 232, 234, 237, 239, 243, 244, 245, 246, 250, 231, 241] @ u ''-''"

definition special_match :: "pyrt \<Rightarrow> str \<Rightarrow> nat option" where
  "special_match rt s =
     (case s of
        [] \<Rightarrow> None
      | c # cs \<Rightarrow>
          if isalnum rt c \<or> c = 95 \<or> py_isspace c \<or> c \<in> set kept_chars then None else Some 1)"

text \<open>\<open>[!?.,-]{2,}\<close>\<close>

definition punct_match :: "str \<Rightarrow> nat option" where
  "punct_match s =
     (let r = takeWhile (\<lambda>c. c \<in> set (u ''!?.,-'')) s
      in if length r \<ge> 2 then Some (length r) else None)"

text \<open>\<open>\s+\<close>\<close>

definition space_match :: "str \<Rightarrow> nat option" where
  "space_match s =
     (let r = takeWhile py_isspace s
      in if r \<noteq> [] then Some (length r) else None)"

text \<open>\<open>text.split()\<close>: the maximal runs of non-blank characters.\<close>

function py_split :: "str \<Rightarrow> str list" where
  "py_split [] = []"
| "py_split (c # cs) =
     (if py_isspace c then py_split cs
      else nonspace_run (c # cs) # py_split (dropWhile (\<lambda>c. \<not> py_isspace c) cs))"
  by pat_completeness auto
termination
  by (relation "measure length") (auto simp: less_Suc_eq_le length_dropWhile_le)

text \<open>\<open>sep.join(words)\<close>\<close>

fun py_join :: "str \<Rightarrow> str list \<Rightarrow> str" where
  "py_join sep [] = []"
| "py_join sep [w] = w"
| "py_join sep (w # v # ws) = w @ sep @ py_join sep (v # ws)"

text \<open>\<open>text.strip()\<close>\<close>

definition py_strip :: "str \<Rightarrow> str" where
  "py_strip s = rev (dropWhile py_isspace (rev (dropWhile py_isspace s)))"

text \<open>\<open>str(text)\<close>: a string is itself, an integer its decimal numeral.\<close>

fun digits_of :: "nat \<Rightarrow> str" where
  "digits_of n = (if n < 10 then [48 + n] else digits_of (n div 10) @ [48 + n mod 10])"

fun py_str :: "pyobj \<Rightarrow> str" where
  "py_str (PyStr s) = s"
| "py_str (PyInt n) = (if n < 0 then 45 # digits_of (nat (- n)) else digits_of (nat n))"
| "py_str PyNone = u ''None''"

text \<open>\<open>pd.isna(text)\<close>\<close>

fun isna :: "pyobj \<Rightarrow> bool" where
  "isna PyNone = True"
| "isna x = False"

definition CONTRACTIONS :: "(str \<times> str) list" where
  "CONTRACTIONS =
     [(u ''t'' @ [225], u ''est'' @ [225]),
      (u ''pra'', u ''para''),
      (u ''pro'', u ''para o''),
      (u ''n'' @ [233], u ''n'' @ [227] @ u ''o '' @ [233]),
      (u ''vc'', u ''voc'' @ [234]),
      (u ''vcs'', u ''voc'' @ [234] @ u ''s''),
      (u ''mt'', u ''muito''),
      (u ''mto'', u ''muito''),
      (u ''tb'', u ''tamb'' @ [233] @ u ''m''),
      (u ''tbm'', u ''tamb'' @ [233] @ u ''m''),
      (u ''q'', u ''que''),
      (u ''oq'', u ''o que''),
      (u ''pq'', u ''porque''),
      (u ''td'', u ''tudo''),
      (u ''blz'', u ''beleza''),
      (u ''vlw'', u ''valeu'')]"

text \<open>\<open>CONTRACTIONS.get(word, word)\<close>\<close>

definition contraction_get :: "str \<Rightarrow> str" where
  "contraction_get word = (case map_of CONTRACTIONS word of Some v \<Rightarrow> v | None \<Rightarrow> word)"

definition remove_urls :: "str \<Rightarrow> str" where
  "remove_urls text = re_sub url_match [] text"

definition remove_emails :: "str \<Rightarrow> str" where
  "remove_emails text = re_sub email_match [] text"

definition expand_contractions :: "str \<Rightarrow> str" where
  "expand_contractions text =
     (let words = py_split text;
          expanded = map contraction_get words
      in py_join (u '' '') expanded)"

definition normalize_unicode :: "pyrt \<Rightarrow> str \<Rightarrow> str" where
  "normalize_unicode rt text = nfkc rt text"

definition remove_special_chars :: "pyrt \<Rightarrow> str \<Rightarrow> str" where
  "remove_special_chars rt text =
     (let text = re_sub (special_match rt) [] text;
          text = re_sub punct_match (u '' '') text
      in text)"

definition remove_extra_spaces :: "str \<Rightarrow> str" where
  "remove_extra_spaces text = re_sub space_match (u '' '') text"

definition clean_text :: "pyrt \<Rightarrow> pyobj \<Rightarrow> str" where
  "clean_text rt text_obj =
     (if isna text_obj then []
      else
        let text = str_lower rt (py_str text_obj);
            text = remove_urls text;
            text = remove_emails text;
            text = expand_contractions text;
            text = normalize_unicode rt text;
            text = remove_special_chars rt text;
            text = remove_extra_spaces text
        in py_strip text)"

text \<open>
  The text as it stands in \<open>clean_text\<close> after lower-casing, the removal of URLs and
  e-mail addresses and the expansion of contractions, before \<open>_normalize_unicode\<close>.
\<close>

definition expanded_text :: "pyrt \<Rightarrow> str \<Rightarrow> str" where
  "expanded_text rt t = expand_contractions (remove_emails (remove_urls (str_lower rt t)))"

text \<open>
  For the proofs about the patterns: no match of \<open>m\<close> starts anywhere in a string; and
  what the matchers of the two patterns ending in \<open>\S+\<close> have in common. Such a match
  is the whole run of non-blank characters at its start, is decided by that run alone,
  and is not lost when the run is longer.
\<close>

fun no_match :: "(str \<Rightarrow> nat option) \<Rightarrow> str \<Rightarrow> bool" where
  "no_match m [] = True"
| "no_match m (c # cs) = (m (c # cs) = None \<and> no_match m cs)"

definition run_matcher :: "(str \<Rightarrow> nat option) \<Rightarrow> bool" where
  "run_matcher m \<longleftrightarrow>
     (\<forall>s n. m s = Some n \<longrightarrow> n = length (nonspace_run s) \<and> 0 < n) \<and>
     (\<forall>s. m s = m (nonspace_run s)) \<and>
     (\<forall>x z. (\<forall>c \<in> set (x @ z). \<not> py_isspace c) \<and> m x \<noteq> None \<longrightarrow> m (x @ z) \<noteq> None)"

section \<open>Auxiliary facts\<close>

lemma u_nonempty: "u (c # cs) \<noteq> []"
  by (simp add: u_def)

lemma count_signals_nonneg: "0 \<le> count_signals signals text"
  by (simp add: count_signals_def)

lemma round2_exact:
  assumes "x * 100 = of_int k"
  shows "round2 x = x"
proof -
  have "x = of_int k / 100" using assms by simp
  then show ?thesis by (simp add: round2_def Let_def)
qed

lemma round2_bounds:
  assumes "0 \<le> x" "x \<le> 100"
  shows "0 \<le> round2 x \<and> round2 x \<le> 100"
proof -
  define y where "y = x * 100"
  define f where "f = \<lfloor>y\<rfloor>"
  have y0: "0 \<le> y" and y1: "y \<le> 10000" using assms by (simp_all add: y_def)
  have f0: "0 \<le> f" using y0 by (simp add: f_def)
  have f1: "f \<le> 10000" using y1 unfolding f_def by (simp add: floor_le_iff) 
  have fy: "of_int f \<le> y" by (simp add: f_def)
  have r: "round2 x = (if y - of_int f < 1 / 2 then of_int f
          else if 1 / 2 < y - of_int f then of_int (f + 1)
          else if even f then of_int f else of_int (f + 1)) / 100"
    by (simp add: round2_def Let_def y_def f_def)
  have up: "1 / 2 \<le> y - of_int f \<Longrightarrow> f + 1 \<le> 10000"
  proof -
    assume a: "1 / 2 \<le> y - of_int f"
    have "of_int f < (10000::rat)" using a y1 by linarith
    then have "f < 10000" by linarith
    then show ?thesis by simp
  qed
  have "\<exists>g. round2 x = of_int g / 100 \<and> 0 \<le> g \<and> g \<le> 10000"
  proof (cases "y - of_int f < 1 / 2")
    case True
    then have "round2 x = of_int f / 100" using r by simp
    then show ?thesis using f0 f1 by blast
  next
    case False
    then have h: "1 / 2 \<le> y - of_int f" by simp
    have "round2 x = of_int f / 100 \<or> round2 x = of_int (f + 1) / 100"
      using r by (simp split: if_splits)
    moreover have "0 \<le> f + 1" using f0 by simp
    ultimately show ?thesis using up[OF h] f0 f1 by blast
  qed
  then obtain g where g: "round2 x = of_int g / 100" "0 \<le> g" "g \<le> 10000" by blast
  have "(0::rat) \<le> of_int g" using g(2) by simp
  moreover have "of_int g \<le> (10000::rat)" using g(3) by linarith
  ultimately show ?thesis using g(1) by simp
qed

lemma churn_score_cases:
  "detect_churn_risk rt t r s = no_risk_result \<or>
   (\<exists>k. 0 \<le> k \<and> k \<le> 100 \<and>
      churn_score (detect_churn_risk rt t r s) =
        round2 (min (of_int k * (if r \<le> 2 then 3 / 2 else if r = 3 then 6 / 5 else 1)) 100))"
proof (cases "\<not> truthy t \<or> \<not> isinstance_str t")
  case True
  then show ?thesis by (simp add: detect_churn_risk_def)
next
  case False
  define tl where "tl = str_lower rt (the_str t)"
  define k where "k = min (count_signals CHURN_SIGNALS_alta tl * 30
      + count_signals CHURN_SIGNALS_media tl * 15 + count_signals CHURN_SIGNALS_baixa tl * 5) 100"
  have "0 \<le> k" "k \<le> 100"
    using count_signals_nonneg[of CHURN_SIGNALS_alta tl]
      count_signals_nonneg[of CHURN_SIGNALS_media tl]
      count_signals_nonneg[of CHURN_SIGNALS_baixa tl]
    by (simp_all add: k_def)
  moreover have "churn_score (detect_churn_risk rt t r s) =
        round2 (min (of_int k * (if r \<le> 2 then 3 / 2 else if r = 3 then 6 / 5 else 1)) 100)"
    using False by (simp add: detect_churn_risk_def Let_def k_def tl_def)
  ultimately show ?thesis by blast
qed

lemma opportunity_score_unrounded:
  assumes "truthy t" "isinstance_str t"
  shows "\<exists>k. opportunity_score (find_opportunities rt t r s) =
            min (of_int k * (if r = 5 then 13 / 10 else if r = 4 then 11 / 10 else 1)) 100 \<and>
          opportunity_level (find_opportunities rt t r s) =
            classify_opportunity
              (min (of_int k * (if r = 5 then 13 / 10 else if r = 4 then 11 / 10 else 1)) 100) r s"
proof -
  define tl where "tl = str_lower rt (the_str t)"
  define k where "k = count_signals UPSELL_SIGNALS tl * 20 + count_signals CROSS_SELL_SIGNALS tl * 15
      + count_signals LOYALTY_SIGNALS tl * 25 + count_signals BRAND_ADVOCATE_SIGNALS tl * 30
      + count_signals EXCEPTIONAL_SATISFACTION tl * 10"
  define x :: rat where "x = min (of_int k * (if r = 5 then 13 / 10 else if r = 4 then 11 / 10 else 1)) 100"
  have "\<exists>j. x * 100 = of_int j"
  proof (cases "of_int k * (if r = 5 then 13 / 10 else if r = 4 then 11 / 10 else (1::rat)) \<le> 100")
    case True
    then have "x * 100 = of_int (k * (if r = 5 then 130 else if r = 4 then 110 else 100))"
      by (simp add: x_def min_def)
    then show ?thesis by blast
  next
    case False
    then have "x * 100 = of_int 10000" by (simp add: x_def min_def)
    then show ?thesis by blast
  qed
  then obtain j where "x * 100 = of_int j" by blast
  then have rx: "round2 x = x" by (rule round2_exact)
  have "opportunity_score (find_opportunities rt t r s) = round2 x"
    using assms by (simp add: find_opportunities_def Let_def k_def tl_def x_def)
  moreover have "opportunity_level (find_opportunities rt t r s) = classify_opportunity x r s"
    using assms by (simp add: find_opportunities_def Let_def k_def tl_def x_def)
  ultimately show ?thesis using rx unfolding x_def by auto
qed

lemma churn_score_formula:
  "churn_score (detect_churn_risk rt t r s) =
     min (of_int (min (alta_gravidade (signals_detected (detect_churn_risk rt t r s)) * 30
                       + media_gravidade (signals_detected (detect_churn_risk rt t r s)) * 15
                       + baixa_gravidade (signals_detected (detect_churn_risk rt t r s)) * 5) 100)
          * (if r \<le> 2 then 3 / 2 else if r = 3 then 6 / 5 else 1)) 100"
proof (cases "\<not> truthy t \<or> \<not> isinstance_str t")
  case True
  then show ?thesis by (simp add: detect_churn_risk_def no_risk_result_def)
next
  case False
  define tl where "tl = str_lower rt (the_str t)"
  define k where "k = min (count_signals CHURN_SIGNALS_alta tl * 30
      + count_signals CHURN_SIGNALS_media tl * 15 + count_signals CHURN_SIGNALS_baixa tl * 5) 100"
  define x :: rat where "x = min (of_int k * (if r \<le> 2 then 3 / 2 else if r = 3 then 6 / 5 else 1)) 100"
  have "\<exists>j. x * 100 = of_int j"
  proof (cases "of_int k * (if r \<le> 2 then 3 / 2 else if r = 3 then 6 / 5 else (1::rat)) \<le> 100")
    case True
    then have "x * 100 = of_int (k * (if r \<le> 2 then 150 else if r = 3 then 120 else 100))"
      by (simp add: x_def min_def)
    then show ?thesis by blast
  next
    case False
    then have "x * 100 = of_int 10000" by (simp add: x_def min_def)
    then show ?thesis by blast
  qed
  then obtain j where "x * 100 = of_int j" by blast
  then have rx: "round2 x = x" by (rule round2_exact)
  have "churn_score (detect_churn_risk rt t r s) = round2 x"
    using False by (simp add: detect_churn_risk_def Let_def k_def tl_def x_def)
  moreover have "signals_detected (detect_churn_risk rt t r s) =
     \<lparr>alta_gravidade = count_signals CHURN_SIGNALS_alta tl,
      media_gravidade = count_signals CHURN_SIGNALS_media tl,
      baixa_gravidade = count_signals CHURN_SIGNALS_baixa tl\<rparr>"
    using False by (simp add: detect_churn_risk_def Let_def tl_def)
  ultimately show ?thesis using rx by (simp add: x_def k_def)
qed

lemma churn_counts_nonneg:
  "0 \<le> alta_gravidade (signals_detected (detect_churn_risk rt t r s)) \<and>
   0 \<le> media_gravidade (signals_detected (detect_churn_risk rt t r s)) \<and>
   0 \<le> baixa_gravidade (signals_detected (detect_churn_risk rt t r s))"
  by (simp add: detect_churn_risk_def no_risk_result_def Let_def count_signals_nonneg)

lemma clamp_scale_mono:
  fixes f :: rat
  assumes "A + 30 \<le> (A'::int)" "0 \<le> A" "1 \<le> f"
  shows "min (of_int (min A 100) * f) 100 \<le> min (of_int (min A' 100) * f) 100 \<and>
         (min (of_int (min A 100) * f) 100 = min (of_int (min A' 100) * f) 100 \<longrightarrow>
          min (of_int (min A' 100) * f) 100 = 100)"
proof -
  define c where "c = min A 100"
  define c' where "c' = min A' 100"
  have cc: "c \<le> c'" using assms(1) by (simp add: c_def c'_def)
  have c0: "0 \<le> c" using assms(2) by (simp add: c_def)
  have f0: "0 < f" using assms(3) by simp
  have le: "of_int c * f \<le> of_int c' * f"
    using cc f0 by (simp add: mult_right_mono)
  have mono: "min (of_int c * f) 100 \<le> min (of_int c' * f) 100"
    using le by (simp add: min_def)
  have eq: "min (of_int c' * f) 100 = 100" if e: "min (of_int c * f) 100 = min (of_int c' * f) 100"
  proof (rule ccontr)
    assume "min (of_int c' * f) 100 \<noteq> 100"
    then have lt: "of_int c' * f < 100" by (simp add: min_def split: if_splits)
    then have "of_int c * f < 100" using le by simp
    then have "of_int c * f = of_int c' * f" using e lt by (simp add: min_def)
    then have "(of_int c :: rat) = of_int c'" using f0 by simp
    then have "c = c'" by simp
    then have "c' = 100" using assms(1) by (simp add: c_def c'_def min_def split: if_splits)
    then have "(100::rat) \<le> of_int c' * f" using assms(3) by simp
    then show False using lt by simp
  qed
  show ?thesis using mono eq unfolding c_def c'_def by blast
qed

lemma signals_detected_str:
  "text \<noteq> [] \<Longrightarrow>
   signals_detected (detect_churn_risk rt (PyStr text) r s) =
     \<lparr>alta_gravidade = count_signals CHURN_SIGNALS_alta (str_lower rt text),
      media_gravidade = count_signals CHURN_SIGNALS_media (str_lower rt text),
      baixa_gravidade = count_signals CHURN_SIGNALS_baixa (str_lower rt text)\<rparr>"
  by (simp add: detect_churn_risk_def Let_def)

lemma max_from_in: "max_from f best xs \<in> set (best # xs)"
  by (induction xs arbitrary: best) auto

lemma category_names_not_outros: "u ''Outros'' \<notin> fst ` set CATEGORY_KEYWORDS"
  by (simp add: CATEGORY_KEYWORDS_def u_def)

lemma positive_scores_keys: "fst ` set (positive_scores low) \<subseteq> fst ` set CATEGORY_KEYWORDS"
  by (force simp: positive_scores_def keyword_scores_def)

lemma positive_scores_pos: "(k, v) \<in> set (positive_scores low) \<Longrightarrow> 0 < v"
  by (simp add: positive_scores_def)

lemma scores_get_pos:
  assumes "k \<in> fst ` set (positive_scores low)"
  shows "0 < scores_get (positive_scores low) k"
proof -
  from assms obtain v where "map_of (positive_scores low) k = Some v"
    by (metis domD dom_map_of_conv_image_fst)
  moreover from this have "(k, v) \<in> set (positive_scores low)" by (rule map_of_SomeD)
  ultimately show ?thesis using positive_scores_pos by (simp add: scores_get_def)
qed

lemma confidence_values:
  assumes "0 < (v::int)"
  shows "min (of_int v / 3) (1::rat) \<in> {1 / 3, 2 / 3, 1}" "min (of_int v / 3) (1::rat) \<noteq> 0"
proof -
  consider "v = 1" | "v = 2" | "3 \<le> v" using assms by linarith
  then show "min (of_int v / 3) (1::rat) \<in> {1 / 3, 2 / 3, 1}"
  proof cases
    case 3
    then have "(3::rat) \<le> of_int v" by linarith
    then show ?thesis by (simp add: min_def)
  qed simp_all
  have "(0::rat) < of_int v" using assms by simp
  then show "min (of_int v / 3) (1::rat) \<noteq> 0" by (simp add: min_def)
qed

lemma extract_category_str:
  assumes "truthy t" "isinstance_str t"
  shows "extract_category rt t =
     (case map fst (positive_scores (str_lower rt (the_str t))) of
        [] \<Rightarrow> (u ''Outros'', 0)
      | k # ks \<Rightarrow>
         (max_from (scores_get (positive_scores (str_lower rt (the_str t)))) k ks,
          min (of_int (scores_get (positive_scores (str_lower rt (the_str t)))
                 (max_from (scores_get (positive_scores (str_lower rt (the_str t)))) k ks)) / 3) 1))"
  using assms by (simp add: extract_category_def Let_def split: list.split)

lemma extract_category_cases:
  "extract_category rt t = (u ''Outros'', 0) \<or>
   (\<exists>k v. extract_category rt t = (k, min (of_int v / 3) 1) \<and> 0 < v \<and> k \<in> fst ` set CATEGORY_KEYWORDS)"
proof (cases "\<not> truthy t \<or> \<not> isinstance_str t")
  case True
  then show ?thesis by (simp add: extract_category_def)
next
  case False
  then have ts: "truthy t" "isinstance_str t" by simp_all
  define low where "low = str_lower rt (the_str t)"
  note ex = extract_category_str[OF ts, of rt, folded low_def]
  show ?thesis
  proof (cases "map fst (positive_scores low)")
    case Nil
    then show ?thesis using ex by simp
  next
    case (Cons k ks)
    define best where "best = max_from (scores_get (positive_scores low)) k ks"
    have "best \<in> set (k # ks)" unfolding best_def by (rule max_from_in)
    then have bin: "best \<in> fst ` set (positive_scores low)" using Cons by (metis set_map)
    have e: "extract_category rt t = (best, min (of_int (scores_get (positive_scores low) best) / 3) 1)"
      using ex Cons by (simp add: best_def)
    show ?thesis using e scores_get_pos[OF bin] bin positive_scores_keys by blast
  qed
qed

lemma max_from_keep: "\<forall>y \<in> set xs. f y \<le> f best \<Longrightarrow> max_from f best xs = best"
  by (induction xs) auto

lemma max_from_later:
  "f best < f x \<Longrightarrow> \<forall>y \<in> set pre. f y < f x \<Longrightarrow> \<forall>y \<in> set post. f y \<le> f x \<Longrightarrow>
   max_from f best (pre @ x # post) = x"
proof (induction pre arbitrary: best)
  case Nil
  then show ?case by (simp add: max_from_keep)
next
  case (Cons p pre)
  then show ?case by simp
qed

lemma py_max_first:
  assumes "xs = pre @ x # post" "\<forall>y \<in> set pre. f y < f x" "\<forall>y \<in> set post. f y \<le> f x"
  shows "(case xs of [] \<Rightarrow> d | k # ks \<Rightarrow> g (max_from f k ks)) = g x"
proof (cases pre)
  case Nil
  then show ?thesis using assms by (simp add: max_from_keep)
next
  case (Cons p pre')
  then have "max_from f p (pre' @ x # post) = x"
    using assms by (intro max_from_later) auto
  then show ?thesis using assms Cons by simp
qed

lemma category_names_distinct: "distinct (map fst CATEGORY_KEYWORDS)"
  by (simp add: CATEGORY_KEYWORDS_def u_def)

lemma keyword_scores_names: "map fst (keyword_scores low) = map fst CATEGORY_KEYWORDS"
  by (simp add: keyword_scores_def case_prod_beta comp_def)

lemma keyword_scores_nth:
  "j < length CATEGORY_KEYWORDS \<Longrightarrow>
   keyword_scores low ! j = (fst (CATEGORY_KEYWORDS ! j), category_score low j)"
  by (simp add: keyword_scores_def category_score_def case_prod_beta)

lemma keyword_scores_length: "length (keyword_scores low) = length CATEGORY_KEYWORDS"
  by (simp add: keyword_scores_def)

lemma positive_scores_distinct: "distinct (map fst (positive_scores low))"
  unfolding positive_scores_def
  by (rule distinct_map_filter) (simp add: keyword_scores_names category_names_distinct)

lemma scores_get_member:
  "(k, v) \<in> set (positive_scores low) \<Longrightarrow> scores_get (positive_scores low) k = v"
  using positive_scores_distinct[of low] by (simp add: scores_get_def)

lemma extract_category_PyStr:
  assumes "text \<noteq> []"
  shows "extract_category rt (PyStr text) =
     (case map fst (positive_scores (str_lower rt text)) of
        [] \<Rightarrow> (u ''Outros'', 0)
      | k # ks \<Rightarrow>
         (\<lambda>b. (b, min (of_int (scores_get (positive_scores (str_lower rt text)) b) / 3) 1))
           (max_from (scores_get (positive_scores (str_lower rt text))) k ks))"
  using assms by (simp add: extract_category_def Let_def split: list.split)

lemma extract_category_first_max:
  assumes ne: "t \<noteq> []"
    and i: "i < length CATEGORY_KEYWORDS"
    and pos: "0 < category_score (str_lower rt t) i"
    and mx: "\<forall>j < length CATEGORY_KEYWORDS. category_score (str_lower rt t) j \<le> category_score (str_lower rt t) i"
    and fs: "\<forall>j < i. category_score (str_lower rt t) j < category_score (str_lower rt t) i"
  shows "extract_category rt (PyStr t) =
           (fst (CATEGORY_KEYWORDS ! i), min (of_int (category_score (str_lower rt t) i) / 3) 1)"
proof -
  define low where "low = str_lower rt t"
  define ks where "ks = keyword_scores low"
  define P where "P = (\<lambda>(category :: str, score :: int). score > 0)"
  define ps where "ps = positive_scores low"
  define x where "x = fst (CATEGORY_KEYWORDS ! i)"
  define pre where "pre = map fst (filter P (take i ks))"
  define post where "post = map fst (filter P (drop (Suc i) ks))"
  have len: "length ks = length CATEGORY_KEYWORDS" by (simp add: ks_def keyword_scores_length)
  have nth: "ks ! j = (fst (CATEGORY_KEYWORDS ! j), category_score low j)"
    if "j < length CATEGORY_KEYWORDS" for j
    using that by (simp add: ks_def keyword_scores_nth)
  have ps_filter: "ps = filter P ks" by (simp add: ps_def positive_scores_def P_def ks_def)
  have Pi: "P (ks ! i)" using pos i by (simp add: nth P_def low_def)
  have "ks = take i ks @ ks ! i # drop (Suc i) ks"
    using i len by (simp add: id_take_nth_drop)
  then have "ps = filter P (take i ks) @ filter P (ks ! i # drop (Suc i) ks)"
    unfolding ps_filter by (metis filter_append)
  then have ps_split: "ps = filter P (take i ks) @ ks ! i # filter P (drop (Suc i) ks)"
    using Pi by simp
  have keys: "map fst ps = pre @ x # post"
    unfolding pre_def post_def x_def by (subst ps_split) (simp add: nth i)
  have val: "scores_get ps (fst (CATEGORY_KEYWORDS ! j)) = category_score low j"
    if "j < length CATEGORY_KEYWORDS" "0 < category_score low j" for j
  proof -
    have "ks ! j \<in> set ks" using that(1) len by simp
    moreover have "P (ks ! j)" using that by (simp add: nth P_def)
    ultimately have "(fst (CATEGORY_KEYWORDS ! j), category_score low j) \<in> set ps"
      using that(1) by (simp add: ps_filter nth)
    then show ?thesis unfolding ps_def by (rule scores_get_member)
  qed
  have fx: "scores_get ps x = category_score low i"
    unfolding x_def using i pos by (intro val) (simp_all add: low_def)
  have before: "\<forall>y \<in> set pre. scores_get ps y < scores_get ps x"
  proof
    fix y assume "y \<in> set pre"
    then obtain e where e: "e \<in> set (take i ks)" "P e" "y = fst e"
      by (auto simp: pre_def)
    from e(1) obtain j where j: "j < i" "e = ks ! j"
      by (auto simp: in_set_conv_nth)
    have jn: "j < length CATEGORY_KEYWORDS" using j(1) i by simp
    have ej: "e = (fst (CATEGORY_KEYWORDS ! j), category_score low j)" using j(2) nth[OF jn] by simp
    have pj: "0 < category_score low j" using e(2) ej by (simp add: P_def)
    have "scores_get ps y = category_score low j" using val[OF jn pj] e(3) ej by simp
    then show "scores_get ps y < scores_get ps x" using fs j(1) fx by (simp add: low_def)
  qed
  have after: "\<forall>y \<in> set post. scores_get ps y \<le> scores_get ps x"
  proof
    fix y assume "y \<in> set post"
    then obtain e where e: "e \<in> set (drop (Suc i) ks)" "P e" "y = fst e"
      by (auto simp: post_def)
    from e(1) have "e \<in> set ks" by (rule in_set_dropD)
    then obtain j where j: "j < length ks" "e = ks ! j"
      by (auto simp: in_set_conv_nth)
    have jn: "j < length CATEGORY_KEYWORDS" using j(1) len by simp
    have ej: "e = (fst (CATEGORY_KEYWORDS ! j), category_score low j)" using j(2) nth[OF jn] by simp
    have pj: "0 < category_score low j" using e(2) ej by (simp add: P_def)
    have "scores_get ps y = category_score low j" using val[OF jn pj] e(3) ej by simp
    then show "scores_get ps y \<le> scores_get ps x" using mx jn fx by (simp add: low_def)
  qed
  have "extract_category rt (PyStr t) =
     (case map fst ps of [] \<Rightarrow> (u ''Outros'', 0)
      | k # ks \<Rightarrow> (\<lambda>b. (b, min (of_int (scores_get ps b) / 3) 1)) (max_from (scores_get ps) k ks))"
    unfolding ps_def low_def using ne by (rule extract_category_PyStr)
  also have "\<dots> = (\<lambda>b. (b, min (of_int (scores_get ps b) / 3) 1)) x"
    using keys before after by (rule py_max_first)
  finally have "extract_category rt (PyStr t) = (x, min (of_int (category_score low i) / 3) 1)"
    by (simp add: fx)
  then show ?thesis by (simp add: x_def low_def)
qed

lemma category_scores_celular_notebook:
  "keyword_scores (u ''celular notebook'') =
     [(u ''Smartphones'', 1), (u ''Notebooks e Computadores'', 1),
      (u ''TVs e Monitores'', 0), (u ''Eletrodom'' @ [233] @ u ''sticos'', 0),
      (u ''M'' @ [243] @ u ''veis'', 0), (u ''Beleza e Sa'' @ [250] @ u ''de'', 0),
      (u ''Livros e M'' @ [237] @ u ''dia'', 0), (u ''Esporte e Lazer'', 0),
      (u ''Moda e Vestu'' @ [225] @ u ''rio'', 0), (u ''Casa e Decora'' @ [231, 227] @ u ''o'', 0),
      (u ''Inform'' @ [225] @ u ''tica e Acess'' @ [243] @ u ''rios'', 0)]"
  by (simp add: keyword_scores_def CATEGORY_KEYWORDS_def count_signals_def u_def)


lemma length_CATEGORY_KEYWORDS: "length CATEGORY_KEYWORDS = 11"
  by (simp add: CATEGORY_KEYWORDS_def)

lemma category_score_celular_notebook:
  "category_score (u ''celular notebook'') 0 = 1"
  "category_score (u ''celular notebook'') 1 = 1"
  "\<forall>j < length CATEGORY_KEYWORDS. 2 \<le> j \<longrightarrow> category_score (u ''celular notebook'') j = 0"
proof -
  have cs: "category_score (u ''celular notebook'') j = snd (keyword_scores (u ''celular notebook'') ! j)"
    if "j < 11" for j
    using that keyword_scores_nth[of j "u ''celular notebook''"] by (simp add: length_CATEGORY_KEYWORDS)
  show "category_score (u ''celular notebook'') 0 = 1"
    by (simp add: cs category_scores_celular_notebook)
  show "category_score (u ''celular notebook'') 1 = 1"
    by (simp add: cs category_scores_celular_notebook)
  have rest: "\<forall>j \<in> set [2..<11]. snd (keyword_scores (u ''celular notebook'') ! j) = 0"
    by (simp add: category_scores_celular_notebook upt_rec_numeral)
  show "\<forall>j < length CATEGORY_KEYWORDS. 2 \<le> j \<longrightarrow> category_score (u ''celular notebook'') j = 0"
  proof (intro allI impI)
    fix j assume j: "j < length CATEGORY_KEYWORDS" "2 \<le> j"
    then have "j \<in> set [2..<11]" by (simp only: length_CATEGORY_KEYWORDS set_upt atLeastLessThan_iff)
    with rest have "snd (keyword_scores (u ''celular notebook'') ! j) = 0" by blast
    then show "category_score (u ''celular notebook'') j = 0"
      using j(1) by (simp add: cs length_CATEGORY_KEYWORDS)
  qed
qed

lemma lower_celular_notebook:
  "str_lower latin1 (u ''Celular notebook'') = u ''celular notebook''"
  by (simp add: latin1_def lower_cp_def u_def)

section \<open>The claims\<close>

text \<open>
  C2. Whatever the text (also one that repeats keywords any number of times), the rating
  and the sentiment, the churn score of \<open>detect_churn_risk\<close> and the opportunity score
  of \<open>find_opportunities\<close> lie between 0 and 100, both ends included.
\<close>

theorem scores_bounded:
  "0 \<le> churn_score (detect_churn_risk rt t r s) \<and>
   churn_score (detect_churn_risk rt t r s) \<le> 100 \<and>
   0 \<le> opportunity_score (find_opportunities rt t r s) \<and>
   opportunity_score (find_opportunities rt t r s) \<le> 100"
proof -
  have churn: "0 \<le> churn_score (detect_churn_risk rt t r s) \<and>
    churn_score (detect_churn_risk rt t r s) \<le> 100"
  proof -
    from churn_score_cases[of rt t r s] show ?thesis
    proof
      assume "detect_churn_risk rt t r s = no_risk_result"
      then show ?thesis by (simp add: no_risk_result_def)
    next
      assume "\<exists>k. 0 \<le> k \<and> k \<le> 100 \<and>
        churn_score (detect_churn_risk rt t r s) =
        round2 (min (of_int k * (if r \<le> 2 then 3 / 2 else if r = 3 then 6 / 5 else 1)) 100)"
      then obtain k where k: "0 \<le> k" 
        and e: "churn_score (detect_churn_risk rt t r s) =
        round2 (min (of_int k * (if r \<le> 2 then 3 / 2 else if r = 3 then 6 / 5 else 1)) 100)"
        by blast
      have "(0::rat) \<le> of_int k" using k by simp
      then have "0 \<le> min (of_int k * (if r \<le> 2 then 3 / 2 else if r = 3 then 6 / 5 else (1::rat))) 100"
        by simp
      then show ?thesis using round2_bounds e by simp
    qed
  qed
  have opp: "0 \<le> opportunity_score (find_opportunities rt t r s) \<and>
    opportunity_score (find_opportunities rt t r s) \<le> 100"
  proof (cases "\<not> truthy t \<or> \<not> isinstance_str t")
    case True
    then show ?thesis by (simp add: find_opportunities_def no_opportunity_result_def)
  next
    case False
    define tl where "tl = str_lower rt (the_str t)"
    define k where "k = count_signals UPSELL_SIGNALS tl * 20 + count_signals CROSS_SELL_SIGNALS tl * 15
      + count_signals LOYALTY_SIGNALS tl * 25 + count_signals BRAND_ADVOCATE_SIGNALS tl * 30
      + count_signals EXCEPTIONAL_SATISFACTION tl * 10"
    have "0 \<le> k"
      using count_signals_nonneg[of UPSELL_SIGNALS tl] count_signals_nonneg[of CROSS_SELL_SIGNALS tl]
        count_signals_nonneg[of LOYALTY_SIGNALS tl] count_signals_nonneg[of BRAND_ADVOCATE_SIGNALS tl]
        count_signals_nonneg[of EXCEPTIONAL_SATISFACTION tl]
      by (simp add: k_def)
    then have "(0::rat) \<le> of_int k" by simp
    then have nn: "0 \<le> min (of_int k * (if r = 5 then 13 / 10 else if r = 4 then 11 / 10 else (1::rat))) 100"
      by simp
    have e: "opportunity_score (find_opportunities rt t r s) =
      round2 (min (of_int k * (if r = 5 then 13 / 10 else if r = 4 then 11 / 10 else 1)) 100)"
      using False by (simp add: find_opportunities_def Let_def k_def tl_def)
    show ?thesis using round2_bounds[OF nn] e by simp
  qed
  show ?thesis using churn opp by simp
qed

theorem scores_bounded_witness:
  "0 \<le> churn_score (detect_churn_risk latin1 (PyStr (u ''golpe golpe golpe lixo'')) 1 (u ''negativo'')) \<and>
   churn_score (detect_churn_risk latin1 (PyStr (u ''golpe golpe golpe lixo'')) 1 (u ''negativo'')) \<le> 100 \<and>
   0 \<le> opportunity_score (find_opportunities latin1 (PyStr (u ''golpe golpe golpe lixo'')) 1 (u ''negativo'')) \<and>
   opportunity_score (find_opportunities latin1 (PyStr (u ''golpe golpe golpe lixo'')) 1 (u ''negativo'')) \<le> 100"
  by (rule scores_bounded)

text \<open>
  C3. When several categories reach the highest keyword count of a (non-empty) text,
  \<open>extract_category\<close> returns the one of them that comes first in the table
  \<open>CATEGORY_KEYWORDS\<close>: if the \<open>i\<close>-th category has a positive count that no category
  exceeds and that no earlier category reaches, the result is that category, with
  confidence min(count / 3, 1). The table starts with \<open>Smartphones\<close> and
  \<open>Notebooks e Computadores\<close>; so a text with exactly one keyword of each of the two
  and none of any other category gives (\<open>Smartphones\<close>, min(1/3, 1)).
\<close>

theorem tie_break_first_declared:
  assumes "t \<noteq> []"
  shows "(\<forall>i < length CATEGORY_KEYWORDS.
            0 < category_score (str_lower rt t) i \<and>
            (\<forall>j < length CATEGORY_KEYWORDS.
               category_score (str_lower rt t) j \<le> category_score (str_lower rt t) i) \<and>
            (\<forall>j < i. category_score (str_lower rt t) j < category_score (str_lower rt t) i)
          \<longrightarrow> extract_category rt (PyStr t) =
                (fst (CATEGORY_KEYWORDS ! i),
                 min (of_int (category_score (str_lower rt t) i) / 3) 1)) \<and>
         fst (CATEGORY_KEYWORDS ! 0) = u ''Smartphones'' \<and>
         fst (CATEGORY_KEYWORDS ! 1) = u ''Notebooks e Computadores'' \<and>
         (category_score (str_lower rt t) 0 = 1 \<and> category_score (str_lower rt t) 1 = 1 \<and>
          (\<forall>j < length CATEGORY_KEYWORDS. 2 \<le> j \<longrightarrow> category_score (str_lower rt t) j = 0)
          \<longrightarrow> extract_category rt (PyStr t) = (u ''Smartphones'', min (1 / 3) 1))"
proof -
  have general: "\<forall>i < length CATEGORY_KEYWORDS.
            0 < category_score (str_lower rt t) i \<and>
            (\<forall>j < length CATEGORY_KEYWORDS.
               category_score (str_lower rt t) j \<le> category_score (str_lower rt t) i) \<and>
            (\<forall>j < i. category_score (str_lower rt t) j < category_score (str_lower rt t) i)
          \<longrightarrow> extract_category rt (PyStr t) =
                (fst (CATEGORY_KEYWORDS ! i),
                 min (of_int (category_score (str_lower rt t) i) / 3) 1)"
    using extract_category_first_max[OF assms] by blast
  have n0: "fst (CATEGORY_KEYWORDS ! 0) = u ''Smartphones''"
    by (simp add: CATEGORY_KEYWORDS_def)
  have n1: "fst (CATEGORY_KEYWORDS ! 1) = u ''Notebooks e Computadores''"
    by (simp add: CATEGORY_KEYWORDS_def)
  have len: "0 < length CATEGORY_KEYWORDS" by (simp add: CATEGORY_KEYWORDS_def)
  have particular: "extract_category rt (PyStr t) = (u ''Smartphones'', min (1 / 3) 1)"
    if h: "category_score (str_lower rt t) 0 = 1" "category_score (str_lower rt t) 1 = 1"
      "\<forall>j < length CATEGORY_KEYWORDS. 2 \<le> j \<longrightarrow> category_score (str_lower rt t) j = 0"
  proof -
    have le: "category_score (str_lower rt t) j \<le> category_score (str_lower rt t) 0"
      if "j < length CATEGORY_KEYWORDS" for j
    proof -
      consider "j = 0" | "j = 1" | "2 \<le> j" by linarith
      then show ?thesis using h that by cases auto
    qed
    have "extract_category rt (PyStr t) =
        (fst (CATEGORY_KEYWORDS ! 0), min (of_int (category_score (str_lower rt t) 0) / 3) 1)"
      using le h(1) by (intro extract_category_first_max[OF assms len]) auto
    then show ?thesis by (simp add: n0 h(1))
  qed
  show ?thesis using general n0 n1 particular by blast
qed

theorem tie_break_first_declared_witness:
  "extract_category latin1 (PyStr (u ''Celular notebook'')) = (u ''Smartphones'', 1 / 3)"
  using tie_break_first_declared[of "u ''Celular notebook''" latin1]
    category_score_celular_notebook
  by (simp add: lower_celular_notebook u_nonempty)

text \<open>
  C4 (scenario 1). The text reads "Produto horrivel, nunca mais compro, quero processar
  essa empresa no procon" (with i-acute, 237, in the second word), the rating is 1 and the
  sentiment \<open>negativo\<close>. For every runtime whose \<open>str.lower\<close> turns the text into the
  same text with a small p, \<open>detect_churn_risk\<close> returns the level \<open>alto_risco\<close> and
  the score 100: three phrases of the high tier are found and none of the others, which
  gives 90, then 135 by the factor 1.5 of a rating of at most 2, capped at 100.
\<close>

theorem scenario1_alto_risco:
  assumes "str_lower rt (u ''Produto horr'' @ [237] @ u ''vel, nunca mais compro, quero processar essa empresa no procon'')
           = u ''produto horr'' @ [237] @ u ''vel, nunca mais compro, quero processar essa empresa no procon''"
  shows "risk_level (detect_churn_risk rt (PyStr (u ''Produto horr'' @ [237] @ u ''vel, nunca mais compro, quero processar essa empresa no procon'')) 1 (u ''negativo'')) = u ''alto_risco'' \<and>
         churn_score (detect_churn_risk rt (PyStr (u ''Produto horr'' @ [237] @ u ''vel, nunca mais compro, quero processar essa empresa no procon'')) 1 (u ''negativo'')) = 100 \<and>
         signals_detected (detect_churn_risk rt (PyStr (u ''Produto horr'' @ [237] @ u ''vel, nunca mais compro, quero processar essa empresa no procon'')) 1 (u ''negativo''))
           = \<lparr>alta_gravidade = 3, media_gravidade = 0, baixa_gravidade = 0\<rparr>"
proof -
  define tl where "tl = u ''produto horr'' @ [237] @ u ''vel, nunca mais compro, quero processar essa empresa no procon''"
  have a: "count_signals CHURN_SIGNALS_alta tl = 3"
    by (simp add: count_signals_def CHURN_SIGNALS_alta_def u_def tl_def)
  have m: "count_signals CHURN_SIGNALS_media tl = 0"
    by (simp add: count_signals_def CHURN_SIGNALS_media_def u_def tl_def)
  have b: "count_signals CHURN_SIGNALS_baixa tl = 0"
    by (simp add: count_signals_def CHURN_SIGNALS_baixa_def u_def tl_def)
  have ne: "u ''negativo'' \<noteq> u ''positivo''" by (simp add: u_def)
  have nz: "u ''Produto horr'' @ [237] @ u ''vel, nunca mais compro, quero processar essa empresa no procon'' \<noteq> []"
    by simp
  have r: "round2 100 = 100" by (rule round2_exact[of _ 10000]) simp
  have l: "str_lower rt (u ''Produto horr'' @ [237] @ u ''vel, nunca mais compro, quero processar essa empresa no procon'') = tl"
    using assms by (simp only: tl_def)
  have lv: "classify_risk 100 1 (u ''negativo'') = u ''alto_risco''"
    by (simp add: classify_risk_def ne)
  show ?thesis
    by (simp only: detect_churn_risk_def truthy.simps isinstance_str.simps the_str.simps nz l a m b Let_def)
       (simp add: r lv)
qed

theorem scenario1_alto_risco_witness:
  "risk_level (detect_churn_risk latin1 (PyStr (u ''Produto horr'' @ [237] @ u ''vel, nunca mais compro, quero processar essa empresa no procon'')) 1 (u ''negativo'')) = u ''alto_risco'' \<and>
   churn_score (detect_churn_risk latin1 (PyStr (u ''Produto horr'' @ [237] @ u ''vel, nunca mais compro, quero processar essa empresa no procon'')) 1 (u ''negativo'')) = 100"
proof -
  have "str_lower latin1 (u ''Produto horr'' @ [237] @ u ''vel, nunca mais compro, quero processar essa empresa no procon'')
           = u ''produto horr'' @ [237] @ u ''vel, nunca mais compro, quero processar essa empresa no procon''"
    by (simp add: latin1_def lower_cp_def u_def)
  from scenario1_alto_risco[OF this] show ?thesis by simp
qed

text \<open>
  C5. With \<open>None\<close> for the text, whatever the rating and the sentiment, the three
  entry points return their zero results and nothing else happens (the model has no
  error value to return, as the source has no \<open>raise\<close> and touches neither the rating
  nor the sentiment on this path): churn score 0 with level \<open>sem_risco\<close> and no aspects
  or reasons; opportunity score 0 with level \<open>sem_oportunidade\<close> and profile
  \<open>cliente_comum\<close>; category \<open>Outros\<close> with confidence 0.
\<close>

theorem null_text_zero_results:
  "churn_score (detect_churn_risk rt PyNone r s) = 0 \<and>
   risk_level (detect_churn_risk rt PyNone r s) = u ''sem_risco'' \<and>
   problem_aspects (detect_churn_risk rt PyNone r s) = [] \<and>
   main_reasons (detect_churn_risk rt PyNone r s) = [] \<and>
   opportunity_score (find_opportunities rt PyNone r s) = 0 \<and>
   opportunity_level (find_opportunities rt PyNone r s) = u ''sem_oportunidade'' \<and>
   customer_profile (find_opportunities rt PyNone r s) = u ''cliente_comum'' \<and>
   extract_category rt PyNone = (u ''Outros'', 0)"
  by (simp add: detect_churn_risk_def find_opportunities_def extract_category_def
      no_risk_result_def no_opportunity_result_def)

theorem null_text_zero_results_witness:
  "churn_score (detect_churn_risk latin1 PyNone 3 (u ''positivo'')) = 0 \<and>
   risk_level (detect_churn_risk latin1 PyNone 3 (u ''positivo'')) = u ''sem_risco'' \<and>
   problem_aspects (detect_churn_risk latin1 PyNone 3 (u ''positivo'')) = [] \<and>
   main_reasons (detect_churn_risk latin1 PyNone 3 (u ''positivo'')) = [] \<and>
   opportunity_score (find_opportunities latin1 PyNone 3 (u ''positivo'')) = 0 \<and>
   opportunity_level (find_opportunities latin1 PyNone 3 (u ''positivo'')) = u ''sem_oportunidade'' \<and>
   customer_profile (find_opportunities latin1 PyNone 3 (u ''positivo'')) = u ''cliente_comum'' \<and>
   extract_category latin1 PyNone = (u ''Outros'', 0)"
  by (rule null_text_zero_results)

text \<open>
  C6. For every text, rating and sentiment, the opportunity level that
  \<open>find_opportunities\<close> returns is given by the first rule that applies, in this order,
  to the score it returns: a negative sentiment or a rating below 4 gives
  \<open>sem_oportunidade\<close>, however high the score; a score of at least 50, or of at least 30
  with rating 5, gives \<open>alta_oportunidade\<close>; a score of at least 25, or of at least 15
  with rating 5, gives \<open>media_oportunidade\<close>; a positive score gives
  \<open>baixa_oportunidade\<close>; anything else \<open>sem_oportunidade\<close>.
\<close>

theorem opportunity_level_first_rule:
  "opportunity_level (find_opportunities rt t r s) =
     (let score = opportunity_score (find_opportunities rt t r s)
      in if s = u ''negativo'' \<or> r < 4 then u ''sem_oportunidade''
         else if score \<ge> 50 \<or> (r = 5 \<and> score \<ge> 30) then u ''alta_oportunidade''
         else if score \<ge> 25 \<or> (r = 5 \<and> score \<ge> 15) then u ''media_oportunidade''
         else if score > 0 then u ''baixa_oportunidade''
         else u ''sem_oportunidade'')"
proof (cases "\<not> truthy t \<or> \<not> isinstance_str t")
  case True
  then show ?thesis by (simp add: find_opportunities_def no_opportunity_result_def)
next
  case False
  then have "truthy t" "isinstance_str t" by simp_all
  from opportunity_score_unrounded[OF this, of rt r s] obtain k where
    "opportunity_score (find_opportunities rt t r s) =
            min (of_int k * (if r = 5 then 13 / 10 else if r = 4 then 11 / 10 else 1)) 100"
    "opportunity_level (find_opportunities rt t r s) =
            classify_opportunity
              (min (of_int k * (if r = 5 then 13 / 10 else if r = 4 then 11 / 10 else 1)) 100) r s"
    by blast
  then show ?thesis by (simp only: classify_opportunity_def Let_def)
qed

theorem opportunity_level_first_rule_witness:
  "opportunity_level (find_opportunities latin1 (PyStr (u ''Recomendo'')) 5 (u ''positivo'')) = u ''alta_oportunidade'' \<and>
   opportunity_level (find_opportunities latin1 (PyStr (u ''Recomendo'')) 3 (u ''positivo'')) = u ''sem_oportunidade''"
proof -
  have tl: "str_lower latin1 (u ''Recomendo'') = u ''recomendo''"
    by (simp add: latin1_def lower_cp_def u_def)
  have c1: "count_signals UPSELL_SIGNALS (u ''recomendo'') = 0"
    by (simp add: count_signals_def UPSELL_SIGNALS_def u_def)
  have c2: "count_signals CROSS_SELL_SIGNALS (u ''recomendo'') = 0"
    by (simp add: count_signals_def CROSS_SELL_SIGNALS_def u_def)
  have c3: "count_signals LOYALTY_SIGNALS (u ''recomendo'') = 0"
    by (simp add: count_signals_def LOYALTY_SIGNALS_def u_def)
  have c4: "count_signals BRAND_ADVOCATE_SIGNALS (u ''recomendo'') = 1"
    by (simp add: count_signals_def BRAND_ADVOCATE_SIGNALS_def u_def)
  have c5: "count_signals EXCEPTIONAL_SATISFACTION (u ''recomendo'') = 0"
    by (simp add: count_signals_def EXCEPTIONAL_SATISFACTION_def u_def)
  have r: "round2 39 = 39" by (rule round2_exact[of _ 3900]) simp
  have sc: "opportunity_score (find_opportunities latin1 (PyStr (u ''Recomendo'')) 5 (u ''positivo'')) = 39"
    by (simp add: find_opportunities_def Let_def tl c1 c2 c3 c4 c5 r u_nonempty)
  have ne: "u ''positivo'' \<noteq> u ''negativo''" by (simp add: u_def)
  show ?thesis
    using opportunity_level_first_rule[of latin1 "PyStr (u ''Recomendo'')" 5 "u ''positivo''"]
      opportunity_level_first_rule[of latin1 "PyStr (u ''Recomendo'')" 3 "u ''positivo''"]
      sc ne
    by (simp add: Let_def)
qed

text \<open>
  C7. Rating and sentiment being the same, if a text \<open>t'\<close> matches more phrases of the
  high tier than a text \<open>t\<close> and at least as many of the medium and of the low tier
  (as when a further high-severity phrase is added to \<open>t\<close>), the churn score of
  \<open>t'\<close> is at least that of \<open>t\<close>, and the two are equal only at the cap of 100.
\<close>

theorem churn_score_monotone:
  assumes "alta_gravidade (signals_detected (detect_churn_risk rt t r s))
             < alta_gravidade (signals_detected (detect_churn_risk rt t' r s))"
    and "media_gravidade (signals_detected (detect_churn_risk rt t r s))
             \<le> media_gravidade (signals_detected (detect_churn_risk rt t' r s))"
    and "baixa_gravidade (signals_detected (detect_churn_risk rt t r s))
             \<le> baixa_gravidade (signals_detected (detect_churn_risk rt t' r s))"
  shows "churn_score (detect_churn_risk rt t r s) \<le> churn_score (detect_churn_risk rt t' r s) \<and>
         (churn_score (detect_churn_risk rt t r s) = churn_score (detect_churn_risk rt t' r s) \<longrightarrow>
          churn_score (detect_churn_risk rt t' r s) = 100)"
proof -
  define a where "a = alta_gravidade (signals_detected (detect_churn_risk rt t r s))"
  define m where "m = media_gravidade (signals_detected (detect_churn_risk rt t r s))"
  define b where "b = baixa_gravidade (signals_detected (detect_churn_risk rt t r s))"
  define a' where "a' = alta_gravidade (signals_detected (detect_churn_risk rt t' r s))"
  define m' where "m' = media_gravidade (signals_detected (detect_churn_risk rt t' r s))"
  define b' where "b' = baixa_gravidade (signals_detected (detect_churn_risk rt t' r s))"
  define f :: rat where "f = (if r \<le> 2 then 3 / 2 else if r = 3 then 6 / 5 else 1)"
  have f1: "1 \<le> f" by (simp add: f_def)
  have nn: "0 \<le> a" "0 \<le> m" "0 \<le> b"
    using churn_counts_nonneg[of rt t r s] by (simp_all add: a_def m_def b_def)
  have h: "a < a'" "m \<le> m'" "b \<le> b'"
    using assms by (simp_all add: a_def m_def b_def a'_def m'_def b'_def)
  have 1: "(a * 30 + m * 15 + b * 5) + 30 \<le> a' * 30 + m' * 15 + b' * 5" using h by simp
  have 2: "0 \<le> a * 30 + m * 15 + b * 5" using nn by simp
  have s1: "churn_score (detect_churn_risk rt t r s) =
      min (of_int (min (a * 30 + m * 15 + b * 5) 100) * f) 100"
    unfolding a_def m_def b_def f_def by (rule churn_score_formula)
  have s2: "churn_score (detect_churn_risk rt t' r s) =
      min (of_int (min (a' * 30 + m' * 15 + b' * 5) 100) * f) 100"
    unfolding a'_def m'_def b'_def f_def by (rule churn_score_formula)
  show ?thesis unfolding s1 s2 by (rule clamp_scale_mono[OF 1 2 f1])
qed

theorem churn_score_monotone_witness:
  "alta_gravidade (signals_detected (detect_churn_risk latin1 (PyStr (u ''Golpe'')) 4 (u ''negativo'')))
     < alta_gravidade (signals_detected (detect_churn_risk latin1 (PyStr (u ''Golpe e fraude'')) 4 (u ''negativo''))) \<and>
   churn_score (detect_churn_risk latin1 (PyStr (u ''Golpe'')) 4 (u ''negativo''))
     \<le> churn_score (detect_churn_risk latin1 (PyStr (u ''Golpe e fraude'')) 4 (u ''negativo''))"
proof -
  have l1: "str_lower latin1 (u ''Golpe'') = u ''golpe''"
    by (simp add: latin1_def lower_cp_def u_def)
  have l2: "str_lower latin1 (u ''Golpe e fraude'') = u ''golpe e fraude''"
    by (simp add: latin1_def lower_cp_def u_def)
  have a1: "count_signals CHURN_SIGNALS_alta (u ''golpe'') = 1"
    by (simp add: count_signals_def CHURN_SIGNALS_alta_def u_def)
  have m1: "count_signals CHURN_SIGNALS_media (u ''golpe'') = 0"
    by (simp add: count_signals_def CHURN_SIGNALS_media_def u_def)
  have b1: "count_signals CHURN_SIGNALS_baixa (u ''golpe'') = 0"
    by (simp add: count_signals_def CHURN_SIGNALS_baixa_def u_def)
  have a2: "count_signals CHURN_SIGNALS_alta (u ''golpe e fraude'') = 2"
    by (simp add: count_signals_def CHURN_SIGNALS_alta_def u_def)
  have m2: "count_signals CHURN_SIGNALS_media (u ''golpe e fraude'') = 0"
    by (simp add: count_signals_def CHURN_SIGNALS_media_def u_def)
  have b2: "count_signals CHURN_SIGNALS_baixa (u ''golpe e fraude'') = 0"
    by (simp add: count_signals_def CHURN_SIGNALS_baixa_def u_def)
  have s1: "signals_detected (detect_churn_risk latin1 (PyStr (u ''Golpe'')) 4 (u ''negativo'')) =
      \<lparr>alta_gravidade = 1, media_gravidade = 0, baixa_gravidade = 0\<rparr>"
    by (simp add: signals_detected_str u_nonempty l1 a1 m1 b1)
  have s2: "signals_detected (detect_churn_risk latin1 (PyStr (u ''Golpe e fraude'')) 4 (u ''negativo'')) =
      \<lparr>alta_gravidade = 2, media_gravidade = 0, baixa_gravidade = 0\<rparr>"
    by (simp add: signals_detected_str u_nonempty l2 a2 m2 b2)
  show ?thesis
    using churn_score_monotone[of latin1 "PyStr (u ''Golpe'')" 4 "u ''negativo''" "PyStr (u ''Golpe e fraude'')"]
    by (simp add: s1 s2)
qed

text \<open>
  C8. For every object passed as the text (a string, \<open>None\<close>, or something that is
  not a string), the pair that \<open>extract_category\<close> returns has the category \<open>Outros\<close>
  exactly when its confidence is 0, and a category other than \<open>Outros\<close> comes with a
  confidence of 1/3, 2/3 or 1.
\<close>

theorem outros_iff_zero_confidence:
  "(fst (extract_category rt t) = u ''Outros'') = (snd (extract_category rt t) = 0) \<and>
   (fst (extract_category rt t) \<noteq> u ''Outros'' \<longrightarrow>
      snd (extract_category rt t) \<in> {1 / 3, 2 / 3, 1})"
proof -
  from extract_category_cases[of rt t] show ?thesis
  proof
    assume "extract_category rt t = (u ''Outros'', 0)"
    then show ?thesis by simp
  next
    assume "\<exists>k v. extract_category rt t = (k, min (of_int v / 3) 1) \<and> 0 < v \<and> k \<in> fst ` set CATEGORY_KEYWORDS"
    then obtain k v where e: "extract_category rt t = (k, min (of_int v / 3) 1)"
      and v: "0 < v" and k: "k \<in> fst ` set CATEGORY_KEYWORDS" by blast
    have "k \<noteq> u ''Outros''" using k category_names_not_outros by blast
    then show ?thesis using e confidence_values[OF v] by simp
  qed
qed

theorem outros_iff_zero_confidence_witness:
  "fst (extract_category latin1 (PyStr (u ''Celular notebook''))) \<noteq> u ''Outros'' \<and>
   snd (extract_category latin1 (PyStr (u ''Celular notebook''))) \<in> {1 / 3, 2 / 3, 1}"
proof -
  have le: "category_score (u ''celular notebook'') j \<le> category_score (u ''celular notebook'') 0"
    if "j < length CATEGORY_KEYWORDS" for j
  proof -
    consider "j = 0" | "j = 1" | "2 \<le> j" by linarith
    then show ?thesis using category_score_celular_notebook that by cases auto
  qed
  have "extract_category latin1 (PyStr (u ''Celular notebook'')) =
      (fst (CATEGORY_KEYWORDS ! 0),
       min (of_int (category_score (str_lower latin1 (u ''Celular notebook'')) 0) / 3) 1)"
    using le category_score_celular_notebook(1)
    by (intro extract_category_first_max) (simp_all add: lower_celular_notebook u_nonempty length_CATEGORY_KEYWORDS)
  then have "fst (extract_category latin1 (PyStr (u ''Celular notebook''))) = u ''Smartphones''"
    by (simp add: CATEGORY_KEYWORDS_def)
  moreover have "u ''Smartphones'' \<noteq> u ''Outros''" by (simp add: u_def)
  ultimately have ne: "fst (extract_category latin1 (PyStr (u ''Celular notebook''))) \<noteq> u ''Outros''"
    by simp
  then show ?thesis
    using outros_iff_zero_confidence[of latin1 "PyStr (u ''Celular notebook'')"] by blast
qed

text \<open>
  C9. In every record that \<open>detect_churn_risk\<close> returns, also the one for a missing
  text, \<open>is_critical\<close> holds exactly when the risk level is \<open>alto_risco\<close>.
\<close>

theorem is_critical_iff_alto_risco:
  "is_critical (detect_churn_risk rt t r s) =
     (risk_level (detect_churn_risk rt t r s) = u ''alto_risco'')"
proof (cases "\<not> truthy t \<or> \<not> isinstance_str t")
  case True
  then show ?thesis by (simp add: detect_churn_risk_def no_risk_result_def u_def)
next
  case False
  then show ?thesis by (simp add: detect_churn_risk_def Let_def)
qed

theorem is_critical_iff_alto_risco_witness:
  "is_critical (detect_churn_risk latin1 (PyStr (u ''Golpe, fraude'')) 2 (u ''negativo'')) \<and>
   risk_level (detect_churn_risk latin1 (PyStr (u ''Golpe, fraude'')) 2 (u ''negativo'')) = u ''alto_risco''"
proof -
  have tl: "str_lower latin1 (u ''Golpe, fraude'') = u ''golpe, fraude''"
    by (simp add: latin1_def lower_cp_def u_def)
  have a: "count_signals CHURN_SIGNALS_alta (u ''golpe, fraude'') = 2"
    by (simp add: count_signals_def CHURN_SIGNALS_alta_def u_def)
  have m: "count_signals CHURN_SIGNALS_media (u ''golpe, fraude'') = 0"
    by (simp add: count_signals_def CHURN_SIGNALS_media_def u_def)
  have b: "count_signals CHURN_SIGNALS_baixa (u ''golpe, fraude'') = 0"
    by (simp add: count_signals_def CHURN_SIGNALS_baixa_def u_def)
  have ne: "u ''negativo'' \<noteq> u ''positivo''" by (simp add: u_def)
  have "risk_level (detect_churn_risk latin1 (PyStr (u ''Golpe, fraude'')) 2 (u ''negativo'')) = u ''alto_risco''"
    by (simp add: detect_churn_risk_def Let_def tl a m b classify_risk_def ne u_nonempty)
  then show ?thesis
    using is_critical_iff_alto_risco[of latin1 "PyStr (u ''Golpe, fraude'')" 2 "u ''negativo''"]
    by simp
qed

text \<open>
  C10. The list \<open>main_reasons\<close> may hold one phrase twice. The phrase "nao recomendo"
  (with a-tilde, 227) stands in the high and in the medium tier of \<open>CHURN_SIGNALS\<close>;
  for the text made of just this phrase, whatever the rating and the sentiment, each of the
  two tiers contributes it once. (The text is in lower case already; the hypothesis says
  that \<open>str.lower\<close> leaves it so.)
\<close>

theorem main_reasons_repeat:
  assumes "str_lower rt (u ''n'' @ [227] @ u ''o recomendo'') = u ''n'' @ [227] @ u ''o recomendo''"
  shows "main_reasons (detect_churn_risk rt (PyStr (u ''n'' @ [227] @ u ''o recomendo'')) r s)
           = [u ''n'' @ [227] @ u ''o recomendo'', u ''n'' @ [227] @ u ''o recomendo''] \<and>
         \<not> distinct (main_reasons (detect_churn_risk rt (PyStr (u ''n'' @ [227] @ u ''o recomendo'')) r s))"
proof -
  define tl where "tl = u ''n'' @ [227] @ u ''o recomendo''"
  have a: "count_signals CHURN_SIGNALS_alta tl = 1"
    by (simp add: count_signals_def CHURN_SIGNALS_alta_def u_def tl_def)
  have m: "count_signals CHURN_SIGNALS_media tl = 1"
    by (simp add: count_signals_def CHURN_SIGNALS_media_def u_def tl_def)
  have b: "count_signals CHURN_SIGNALS_baixa tl = 0"
    by (simp add: count_signals_def CHURN_SIGNALS_baixa_def u_def tl_def)
  have ca: "collect_reasons CHURN_SIGNALS_alta tl [] = [tl]"
    by (simp add: CHURN_SIGNALS_alta_def u_def tl_def)
  have cm: "collect_reasons CHURN_SIGNALS_media tl [tl] = [tl, tl]"
    by (simp add: CHURN_SIGNALS_media_def u_def tl_def)
  have e: "extract_main_reasons tl 1 1 0 = [tl, tl]"
    by (simp add: extract_main_reasons_def Let_def ca cm)
  have nz: "u ''n'' @ [227] @ u ''o recomendo'' \<noteq> []" by simp
  have l: "str_lower rt (u ''n'' @ [227] @ u ''o recomendo'') = tl"
    using assms by (simp only: tl_def)
  have "main_reasons (detect_churn_risk rt (PyStr (u ''n'' @ [227] @ u ''o recomendo'')) r s) = [tl, tl]"
    by (simp only: detect_churn_risk_def truthy.simps isinstance_str.simps the_str.simps nz l a m b Let_def)
       (simp add: e)
  then show ?thesis by (simp add: tl_def)
qed

theorem main_reasons_repeat_witness:
  "main_reasons (detect_churn_risk latin1 (PyStr (u ''n'' @ [227] @ u ''o recomendo'')) 3 (u ''negativo''))
           = [u ''n'' @ [227] @ u ''o recomendo'', u ''n'' @ [227] @ u ''o recomendo'']"
proof -
  have "str_lower latin1 (u ''n'' @ [227] @ u ''o recomendo'') = u ''n'' @ [227] @ u ''o recomendo''"
    by (simp add: latin1_def lower_cp_def u_def)
  from main_reasons_repeat[OF this] show ?thesis by simp
qed

end
